theory Spec2Isabelle
  imports Main "HOL-Library.Word"
begin

section \<open>Values crossing the cgo boundary\<close>

text \<open>
  A Go \<open>[]byte\<close> is either \<open>nil\<close> or a sequence of bytes; \<open>len\<close> of the nil slice is 0.
  A C pointer is an address, \<open>nil\<close> being address 0.  \<open>C.size_t\<close>, \<open>C.int\<close> and \<open>C.uchar\<close>
  are 64, 32 and 8 bit words.
\<close>

type_synonym bytes = "8 word list"
type_synonym goslice = "bytes option"
type_synonym cptr = nat
type_synonym size_t = "64 word"
type_synonym cint = "32 word"
type_synonym uchar = "8 word"

definition nil :: cptr where
  "nil = 0"

definition len_bytes :: "goslice \<Rightarrow> nat" where
  "len_bytes b = (case b of None \<Rightarrow> 0 | Some xs \<Rightarrow> length xs)"

datatype panic = IndexOutOfRange | NilDereference | TypeAssertion

datatype 'a outcome = Returned 'a | Panicked panic

section \<open>compaction\_filter.go: the copy-on-write callback registry\<close>

text \<open>
  The \<open>atomic.Value\<close> of a \<open>COWList\<close> holds a \<open>[]interface{}\<close>; an \<open>interface{}\<close> is
  \<open>None\<close> (nil) or \<open>Some\<close> item.  The mutex serialises writers and is not part of
  the sequential model.
\<close>

type_synonym 'a COWList = "'a option list"

definition NewCOWList :: "'a COWList" where
  "NewCOWList = []"

text \<open>Go's builtin \<open>make([]interface{}, n)\<close> and \<open>copy(dst, src)\<close>.\<close>

definition make_slice :: "nat \<Rightarrow> 'a option list" where
  "make_slice n = replicate n None"

definition copy_slice :: "'a list \<Rightarrow> 'a list \<Rightarrow> 'a list" where
  "copy_slice dst src =
     (let k = min (length dst) (length src) in take k src @ drop k dst)"

text \<open>\<open>Append\<close> returns the index and the list it publishes.\<close>

definition Append :: "'a COWList \<Rightarrow> 'a option \<Rightarrow> int \<times> 'a COWList" where
  "Append c i =
     (let list = c;
          newLen = length list + 1;
          newList = make_slice newLen;
          newList = copy_slice newList list;
          newList = newList[newLen - 1 := i]
      in (int newLen - 1, newList))"

text \<open>\<open>Get\<close> indexes the published slice; Go panics outside \<open>0 \<le> index < len\<close>.\<close>

definition Get_item :: "'a COWList \<Rightarrow> int \<Rightarrow> 'a option outcome" where
  "Get_item c index =
     (let list = c
      in if 0 \<le> index \<and> index < int (length list) then Returned (list ! nat index)
         else Panicked IndexOutOfRange)"

text \<open>
  A run of \<open>Append\<close> calls: the items are appended left to right; the result is the
  list of (returned index, list published by that call), in call order.
\<close>

fun Appends :: "'a COWList \<Rightarrow> 'a option list \<Rightarrow> (int \<times> 'a COWList) list" where
  "Appends c [] = []"
| "Appends c (i # is) = (let r = Append c i in r # Appends (snd r) is)"

section \<open>compaction\_filter.go: the filter dispatch shim\<close>

text \<open>
  A \<open>CompactionFilter\<close> is an interface value with the methods \<open>Filter\<close> and \<open>Name\<close>.
\<close>

record CompactionFilter =
  Filter :: "int \<Rightarrow> goslice \<Rightarrow> goslice \<Rightarrow> bool \<times> goslice"
  Name :: string

record compactionFilterWrapper =
  name_w :: cptr
  filter_w :: CompactionFilter

definition nativeCompactionFilter :: "cptr \<Rightarrow> CompactionFilter" where
  "nativeCompactionFilter c = \<lparr> Filter = (\<lambda>level key val. (False, None)), Name = [] \<rparr>"

text \<open>
  The helpers \<open>byteToChar\<close>, \<open>charToByte\<close>, \<open>cByteSlice\<close> and \<open>boolToChar\<close> of the package and the cgo
  runtime functions \<open>C.CString\<close>, \<open>C.GoString\<close> and \<open>C.GoBytes\<close> are not part of the
  files verified here; they are parameters.  \<open>cByteSlice\<close> and \<open>CString\<close> allocate, so
  they take the number of the call within the operation as well.
\<close>

record cgo =
  byteToChar :: "goslice \<Rightarrow> cptr"
  charToByte :: "cptr \<Rightarrow> size_t \<Rightarrow> goslice"
  cByteSlice :: "nat \<Rightarrow> goslice \<Rightarrow> cptr"
  CString :: "nat \<Rightarrow> string \<Rightarrow> cptr"
  GoString :: "cptr \<Rightarrow> string"
  GoBytes :: "cptr \<Rightarrow> cint \<Rightarrow> bytes"
  boolToChar :: "bool \<Rightarrow> uchar"

definition registerCompactionFilter ::
  "cgo \<Rightarrow> compactionFilterWrapper COWList \<Rightarrow> CompactionFilter
     \<Rightarrow> int \<times> compactionFilterWrapper COWList" where
  "registerCompactionFilter rt compactionFilters f =
     Append compactionFilters (Some \<lparr> name_w = CString rt 0 (Name f), filter_w = f \<rparr>)"

text \<open>The three out-parameters of the exported filter function, as the cells they point to.\<close>

record filter_out =
  cNewVal :: cptr
  cNewValLen :: size_t
  cValChanged :: uchar

text \<open>
  The type assertion \<open>.(compactionFilterWrapper)\<close> panics on a nil interface; every
  non-nil item of this registry is a wrapper.
\<close>

definition gorocksdb_compactionfilter_filter ::
  "cgo \<Rightarrow> compactionFilterWrapper COWList \<Rightarrow> int \<Rightarrow> cint \<Rightarrow> cptr \<Rightarrow> size_t \<Rightarrow> cptr \<Rightarrow> size_t
     \<Rightarrow> filter_out \<Rightarrow> (cint \<times> filter_out) outcome" where
  "gorocksdb_compactionfilter_filter rt compactionFilters idx cLevel cKey cKeyLen cVal cValLen out =
     (let key = charToByte rt cKey cKeyLen;
          val = charToByte rt cVal cValLen
      in case Get_item compactionFilters idx of
           Panicked p \<Rightarrow> Panicked p
         | Returned None \<Rightarrow> Panicked TypeAssertion
         | Returned (Some w) \<Rightarrow>
             (let (remove, newVal) = Filter (filter_w w) (sint cLevel) key val
              in if remove then Returned (1, out)
                 else if newVal \<noteq> None then
                   Returned (0, out\<lparr> cNewVal := byteToChar rt newVal,
                                     cNewValLen := of_nat (len_bytes newVal),
                                     cValChanged := 1 \<rparr>)
                 else Returned (0, out)))"

definition gorocksdb_compactionfilter_name ::
  "compactionFilterWrapper COWList \<Rightarrow> int \<Rightarrow> cptr outcome" where
  "gorocksdb_compactionfilter_name compactionFilters idx =
     (case Get_item compactionFilters idx of
        Panicked p \<Rightarrow> Panicked p
      | Returned None \<Rightarrow> Panicked TypeAssertion
      | Returned (Some w) \<Rightarrow> Returned (name_w w))"

section \<open>The database handle\<close>

text \<open>
  \<open>*Options\<close>, \<open>*ReadOptions\<close>, \<open>*WriteOptions\<close>, \<open>*FlushOptions\<close>, \<open>*WriteBatch\<close> and
  \<open>*ColumnFamilyHandle\<close> are Go pointers to a struct whose field \<open>c\<close> is the C handle:
  \<open>None\<close> is the nil pointer, and reading \<open>.c\<close> through it panics.
\<close>

type_synonym handle_ptr = "cptr option"

datatype error = errDBClosed | errors_New string

datatype Slice = NewSlice cptr size_t

definition NewNativeColumnFamilyHandle :: "cptr \<Rightarrow> handle_ptr" where
  "NewNativeColumnFamilyHandle h = Some h"

record Range =
  Start :: goslice
  Limit :: goslice

record DB =
  db_c :: cptr
  db_name :: string
  db_opts :: handle_ptr
  opened :: "32 word"

text \<open>
  What an operation does besides returning: the lock operations on the embedded
  \<open>sync.RWMutex\<close>, the calls into the C library (with the handle passed first) and
  the \<open>C.free\<close> calls, in program order.
\<close>

datatype event = RLock | RUnlock | Lock | Unlock | Native string cptr | Free cptr

fun is_native :: "event \<Rightarrow> bool" where
  "is_native (Native f h) = True"
| "is_native e = False"

text \<open>
  The C library is an external collaborator: what each entry point hands back (its
  return value and what it stores through its out-pointers, the error string last)
  is a parameter.
\<close>

record engine =
  rocksdb_open :: "cptr \<Rightarrow> cptr \<Rightarrow> cptr \<times> cptr"
  rocksdb_open_column_families ::
    "cptr \<Rightarrow> cptr \<Rightarrow> cint \<Rightarrow> cptr list \<Rightarrow> cptr list \<Rightarrow> cptr \<times> cptr list \<times> cptr"
  rocksdb_open_for_read_only_column_families ::
    "cptr \<Rightarrow> cptr \<Rightarrow> cint \<Rightarrow> cptr list \<Rightarrow> cptr list \<Rightarrow> uchar \<Rightarrow> cptr \<times> cptr list \<times> cptr"
  rocksdb_get :: "cptr \<Rightarrow> cptr \<Rightarrow> cptr \<Rightarrow> size_t \<Rightarrow> cptr \<times> size_t \<times> cptr"
  rocksdb_get_cf :: "cptr \<Rightarrow> cptr \<Rightarrow> cptr \<Rightarrow> cptr \<Rightarrow> size_t \<Rightarrow> cptr \<times> size_t \<times> cptr"
  rocksdb_multi_get ::
    "cptr \<Rightarrow> cptr \<Rightarrow> size_t \<Rightarrow> cptr list \<Rightarrow> size_t list \<Rightarrow> cptr list \<times> size_t list \<times> cptr list"
  rocksdb_put :: "cptr \<Rightarrow> cptr \<Rightarrow> cptr \<Rightarrow> size_t \<Rightarrow> cptr \<Rightarrow> size_t \<Rightarrow> cptr"
  rocksdb_delete :: "cptr \<Rightarrow> cptr \<Rightarrow> cptr \<Rightarrow> size_t \<Rightarrow> cptr"
  rocksdb_merge :: "cptr \<Rightarrow> cptr \<Rightarrow> cptr \<Rightarrow> size_t \<Rightarrow> cptr \<Rightarrow> size_t \<Rightarrow> cptr"
  rocksdb_write :: "cptr \<Rightarrow> cptr \<Rightarrow> cptr \<Rightarrow> cptr"
  rocksdb_property_value :: "cptr \<Rightarrow> cptr \<Rightarrow> cptr"
  rocksdb_approximate_sizes ::
    "cptr \<Rightarrow> cint \<Rightarrow> cptr list \<Rightarrow> size_t list \<Rightarrow> cptr list \<Rightarrow> size_t list \<Rightarrow> 64 word list"
  rocksdb_approximate_memtable_sizes ::
    "cptr \<Rightarrow> cint \<Rightarrow> cptr list \<Rightarrow> size_t list \<Rightarrow> cptr list \<Rightarrow> size_t list \<Rightarrow> 64 word list"
  rocksdb_flush :: "cptr \<Rightarrow> cptr \<Rightarrow> cptr"
  rocksdb_disable_file_deletions :: "cptr \<Rightarrow> cptr"
  rocksdb_enable_file_deletions :: "cptr \<Rightarrow> uchar \<Rightarrow> cptr"

text \<open>
  A C function that fills a caller's array writes its entries over the array's; the
  array keeps its length.
\<close>

definition fill :: "'a list \<Rightarrow> 'a list \<Rightarrow> 'a list" where
  "fill arr written = take (length arr) (written @ drop (length written) arr)"

subsection \<open>Opening\<close>

definition OpenDb :: "cgo \<Rightarrow> engine \<Rightarrow> handle_ptr \<Rightarrow> string \<Rightarrow> (DB option \<times> error option) outcome \<times> event list" where
  "OpenDb rt eng opts name =
     (let cName = CString rt 0 name
      in case opts of
           None \<Rightarrow> (Panicked NilDereference, [Free cName])
         | Some opts_c \<Rightarrow>
             (let (db, cErr) = rocksdb_open eng opts_c cName
              in if cErr \<noteq> nil
                 then (Returned (None, Some (errors_New (GoString rt cErr))),
                       [Native ''rocksdb_open'' opts_c, Free cErr, Free cName])
                 else (Returned (Some \<lparr> db_c = db, db_name = name, db_opts = opts, opened = 1 \<rparr>, None),
                       [Native ''rocksdb_open'' opts_c, Free cName])))"

text \<open>
  The loop \<open>cOpts[i] = o.c\<close> over \<open>cfOpts\<close>: the handles read so far, or the panic at the
  first nil element.
\<close>

fun read_handles :: "handle_ptr list \<Rightarrow> cptr list outcome" where
  "read_handles [] = Returned []"
| "read_handles (None # os) = Panicked NilDereference"
| "read_handles (Some h # os) =
     (case read_handles os of Panicked p \<Rightarrow> Panicked p | Returned hs \<Rightarrow> Returned (h # hs))"

text \<open>
  The deferred calls run when the function returns and when it panics: the loop
  freeing \<open>cNames\<close>, then \<open>C.free(cName)\<close>.  The arguments of the C call are evaluated
  left to right, so \<open>opts.c\<close> is read before \<open>&cNames[0]\<close> is taken.
\<close>

definition OpenDbColumnFamilies ::
  "cgo \<Rightarrow> engine \<Rightarrow> handle_ptr \<Rightarrow> string \<Rightarrow> string list \<Rightarrow> handle_ptr list
     \<Rightarrow> (DB option \<times> handle_ptr list option \<times> error option) outcome \<times> event list" where
  "OpenDbColumnFamilies rt eng opts name cfNames cfOpts =
     (let numColumnFamilies = length cfNames
      in if numColumnFamilies \<noteq> length cfOpts
         then (Returned (None, None,
                 Some (errors_New ''must provide the same number of column family names and options'')), [])
         else
           (let cName = CString rt 0 name;
                cNames = map (\<lambda>(i, s). CString rt (Suc i) s) (enumerate 0 cfNames);
                deferred = map Free cNames @ [Free cName]
            in case read_handles cfOpts of
                 Panicked p \<Rightarrow> (Panicked p, deferred)
               | Returned cOpts \<Rightarrow>
                   (let cHandles = replicate numColumnFamilies nil
                    in case opts of
                         None \<Rightarrow> (Panicked NilDereference, deferred)
                       | Some opts_c \<Rightarrow>
                           if numColumnFamilies = 0 then (Panicked IndexOutOfRange, deferred)
                           else
                             (let (db, written, cErr) =
                                    rocksdb_open_column_families eng opts_c cName
                                      (of_nat numColumnFamilies) cNames cOpts;
                                  cHandles = fill cHandles written
                              in if cErr \<noteq> nil
                                 then (Returned (None, None, Some (errors_New (GoString rt cErr))),
                                       Native ''rocksdb_open_column_families'' opts_c # Free cErr # deferred)
                                 else
                                   (let cfHandles = map NewNativeColumnFamilyHandle cHandles
                                    in (Returned (Some \<lparr> db_c = db, db_name = name, db_opts = opts, opened = 1 \<rparr>,
                                                  Some cfHandles, None),
                                        Native ''rocksdb_open_column_families'' opts_c # deferred))))))"

definition OpenDbForReadOnlyColumnFamilies ::
  "cgo \<Rightarrow> engine \<Rightarrow> handle_ptr \<Rightarrow> string \<Rightarrow> string list \<Rightarrow> handle_ptr list \<Rightarrow> bool
     \<Rightarrow> (DB option \<times> handle_ptr list option \<times> error option) outcome \<times> event list" where
  "OpenDbForReadOnlyColumnFamilies rt eng opts name cfNames cfOpts errorIfLogFileExist =
     (let numColumnFamilies = length cfNames
      in if numColumnFamilies \<noteq> length cfOpts
         then (Returned (None, None,
                 Some (errors_New ''must provide the same number of column family names and options'')), [])
         else
           (let cName = CString rt 0 name;
                cNames = map (\<lambda>(i, s). CString rt (Suc i) s) (enumerate 0 cfNames);
                deferred = map Free cNames @ [Free cName]
            in case read_handles cfOpts of
                 Panicked p \<Rightarrow> (Panicked p, deferred)
               | Returned cOpts \<Rightarrow>
                   (let cHandles = replicate numColumnFamilies nil
                    in case opts of
                         None \<Rightarrow> (Panicked NilDereference, deferred)
                       | Some opts_c \<Rightarrow>
                           if numColumnFamilies = 0 then (Panicked IndexOutOfRange, deferred)
                           else
                             (let (db, written, cErr) =
                                    rocksdb_open_for_read_only_column_families eng opts_c cName
                                      (of_nat numColumnFamilies) cNames cOpts
                                      (boolToChar rt errorIfLogFileExist);
                                  cHandles = fill cHandles written
                              in if cErr \<noteq> nil
                                 then (Returned (None, None, Some (errors_New (GoString rt cErr))),
                                       Native ''rocksdb_open_for_read_only_column_families'' opts_c
                                         # Free cErr # deferred)
                                 else
                                   (let cfHandles = map NewNativeColumnFamilyHandle cHandles
                                    in (Returned (Some \<lparr> db_c = db, db_name = name, db_opts = opts, opened = 1 \<rparr>,
                                                  Some cfHandles, None),
                                        Native ''rocksdb_open_for_read_only_column_families'' opts_c
                                          # deferred))))))"

definition IsOpened :: "DB \<Rightarrow> bool" where
  "IsOpened db = (opened db \<noteq> 0)"

subsection \<open>Reads\<close>

definition Get ::
  "cgo \<Rightarrow> engine \<Rightarrow> DB \<Rightarrow> handle_ptr \<Rightarrow> goslice \<Rightarrow> (Slice option \<times> error option) outcome \<times> event list" where
  "Get rt eng db opts key =
     (let cKey = byteToChar rt key
      in if opened db = 0 then (Returned (None, Some errDBClosed), [RLock, RUnlock])
         else case opts of
           None \<Rightarrow> (Panicked NilDereference, [RLock])
         | Some opts_c \<Rightarrow>
             (let (cValue, cValLen, cErr) =
                    rocksdb_get eng (db_c db) opts_c cKey (of_nat (len_bytes key))
              in if cErr \<noteq> nil
                 then (Returned (None, Some (errors_New (GoString rt cErr))),
                       [RLock, Native ''rocksdb_get'' (db_c db), RUnlock, Free cErr])
                 else (Returned (Some (NewSlice cValue cValLen), None),
                       [RLock, Native ''rocksdb_get'' (db_c db), RUnlock])))"

definition GetBytes ::
  "cgo \<Rightarrow> engine \<Rightarrow> DB \<Rightarrow> handle_ptr \<Rightarrow> goslice \<Rightarrow> (goslice \<times> error option) outcome \<times> event list" where
  "GetBytes rt eng db opts key =
     (let cKey = byteToChar rt key
      in if opened db = 0 then (Returned (None, Some errDBClosed), [RLock, RUnlock])
         else case opts of
           None \<Rightarrow> (Panicked NilDereference, [RLock])
         | Some opts_c \<Rightarrow>
             (let (cValue, cValLen, cErr) =
                    rocksdb_get eng (db_c db) opts_c cKey (of_nat (len_bytes key))
              in if cErr \<noteq> nil
                 then (Returned (None, Some (errors_New (GoString rt cErr))),
                       [RLock, Native ''rocksdb_get'' (db_c db), RUnlock, Free cErr])
                 else if cValue = nil
                 then (Returned (None, None), [RLock, Native ''rocksdb_get'' (db_c db), RUnlock])
                 else (Returned (Some (GoBytes rt cValue (ucast cValLen)), None),
                       [RLock, Native ''rocksdb_get'' (db_c db), RUnlock, Free cValue])))"

definition GetCF ::
  "cgo \<Rightarrow> engine \<Rightarrow> DB \<Rightarrow> handle_ptr \<Rightarrow> handle_ptr \<Rightarrow> goslice
     \<Rightarrow> (Slice option \<times> error option) outcome \<times> event list" where
  "GetCF rt eng db opts cf key =
     (let cKey = byteToChar rt key
      in if opened db = 0 then (Returned (None, Some errDBClosed), [RLock, RUnlock])
         else case opts of
           None \<Rightarrow> (Panicked NilDereference, [RLock])
         | Some opts_c \<Rightarrow>
            (case cf of
               None \<Rightarrow> (Panicked NilDereference, [RLock])
             | Some cf_c \<Rightarrow>
                 (let (cValue, cValLen, cErr) =
                        rocksdb_get_cf eng (db_c db) opts_c cf_c cKey (of_nat (len_bytes key))
                  in if cErr \<noteq> nil
                     then (Returned (None, Some (errors_New (GoString rt cErr))),
                           [RLock, Native ''rocksdb_get_cf'' (db_c db), RUnlock, Free cErr])
                     else (Returned (Some (NewSlice cValue cValLen), None),
                           [RLock, Native ''rocksdb_get_cf'' (db_c db), RUnlock]))))"

text \<open>
  \<open>MultiGetBytes\<close> writes into the caller's slices \<open>values\<close> and \<open>errs\<close>; an index
  past the end of either panics.  The state of its two loops is the pair of slices
  and the events so far.

  The loop of the closed branch, from index \<open>i\<close>:
\<close>

function closed_loop ::
  "nat \<Rightarrow> nat \<Rightarrow> cptr list \<Rightarrow> goslice list \<Rightarrow> error option list \<Rightarrow> event list
     \<Rightarrow> unit outcome \<times> goslice list \<times> error option list \<times> event list" where
  "closed_loop i n cKeys values errs tr =
     (if i < n then
        if i < length values then
          (let values = values[i := None]
           in if i < length errs then
                (let errs = errs[i := Some errDBClosed]
                 in closed_loop (i + 1) n cKeys values errs (tr @ [Free (cKeys ! i)]))
              else (Panicked IndexOutOfRange, values, errs, tr))
        else (Panicked IndexOutOfRange, values, errs, tr)
      else (Returned (), values, errs, tr))"
  by pat_completeness auto
termination
  by (relation "measure (\<lambda>(i, n, cKeys, values, errs, tr). n - i)") auto

text \<open>The loop after a completed \<open>rocksdb_multi_get\<close>, from index \<open>i\<close>:\<close>

function result_loop ::
  "cgo \<Rightarrow> nat \<Rightarrow> nat \<Rightarrow> cptr list \<Rightarrow> cptr list \<Rightarrow> size_t list \<Rightarrow> cptr list
     \<Rightarrow> goslice list \<Rightarrow> error option list \<Rightarrow> event list
     \<Rightarrow> unit outcome \<times> goslice list \<times> error option list \<times> event list" where
  "result_loop rt i n cKeys cValues cValueSizeList cErrs values errs tr =
     (if i < n then
        if cErrs ! i = nil then
          if cValues ! i = nil then
            if i < length values
            then result_loop rt (i + 1) n cKeys cValues cValueSizeList cErrs
                   (values[i := None]) errs (tr @ [Free (cKeys ! i)])
            else (Panicked IndexOutOfRange, values, errs, tr)
          else
            if i < length values
            then result_loop rt (i + 1) n cKeys cValues cValueSizeList cErrs
                   (values[i := Some (GoBytes rt (cValues ! i) (ucast (cValueSizeList ! i)))]) errs
                   (tr @ [Free (cValues ! i), Free (cKeys ! i)])
            else (Panicked IndexOutOfRange, values, errs, tr)
        else
          if i < length values then
            (let values = values[i := None]
             in if i < length errs
                then result_loop rt (i + 1) n cKeys cValues cValueSizeList cErrs values
                       (errs[i := Some (errors_New (GoString rt (cErrs ! i)))])
                       (tr @ [Free (cErrs ! i), Free (cKeys ! i)])
                else (Panicked IndexOutOfRange, values, errs, tr))
          else (Panicked IndexOutOfRange, values, errs, tr)
      else (Returned (), values, errs, tr))"
  by pat_completeness auto
termination
  by (relation "measure (\<lambda>(rt, i, n, rest). n - i)") auto

text \<open>
  The first loop stores \<open>cByteSlice(k)\<close> and \<open>len(k)\<close> for each key, in order.  A lock
  taken before a panic stays taken: the unlock calls are not deferred.
\<close>

definition MultiGetBytes ::
  "cgo \<Rightarrow> engine \<Rightarrow> DB \<Rightarrow> handle_ptr \<Rightarrow> goslice list \<Rightarrow> goslice list \<Rightarrow> error option list
     \<Rightarrow> unit outcome \<times> goslice list \<times> error option list \<times> event list" where
  "MultiGetBytes rt eng db opts keyList values errs =
     (let n = length keyList;
          cKeys = map (\<lambda>(i, k). cByteSlice rt i k) (enumerate 0 keyList);
          cKeySizeList = map (\<lambda>k. of_nat (len_bytes k)) keyList;
          cValues = replicate n nil;
          cValueSizeList = replicate n 0;
          cErrs = replicate n nil
      in if opened db = 1 then
           (case opts of
              None \<Rightarrow> (Panicked NilDereference, values, errs, [RLock])
            | Some opts_c \<Rightarrow>
                if n = 0 then (Panicked IndexOutOfRange, values, errs, [RLock])
                else
                  (let (wValues, wSizes, wErrs) =
                         rocksdb_multi_get eng (db_c db) opts_c (of_nat n) cKeys cKeySizeList;
                       cValues = fill cValues wValues;
                       cValueSizeList = fill cValueSizeList wSizes;
                       cErrs = fill cErrs wErrs
                   in result_loop rt 0 n cKeys cValues cValueSizeList cErrs values errs
                        [RLock, Native ''rocksdb_multi_get'' (db_c db), RUnlock]))
         else
           (case closed_loop 0 n cKeys values errs [RLock] of
              (Panicked p, values, errs, tr) \<Rightarrow> (Panicked p, values, errs, tr)
            | (Returned u, values, errs, tr) \<Rightarrow> (Returned (), values, errs, tr @ [RUnlock])))"

subsection \<open>Writes\<close>

definition Put ::
  "cgo \<Rightarrow> engine \<Rightarrow> DB \<Rightarrow> handle_ptr \<Rightarrow> goslice \<Rightarrow> goslice \<Rightarrow> error option outcome \<times> event list" where
  "Put rt eng db opts key val =
     (let cKey = byteToChar rt key;
          cValue = byteToChar rt val
      in case opts of
           None \<Rightarrow> (Panicked NilDereference, [])
         | Some opts_c \<Rightarrow>
             (let cErr = rocksdb_put eng (db_c db) opts_c cKey (of_nat (len_bytes key))
                           cValue (of_nat (len_bytes val))
              in if cErr \<noteq> nil
                 then (Returned (Some (errors_New (GoString rt cErr))),
                       [Native ''rocksdb_put'' (db_c db), Free cErr])
                 else (Returned None, [Native ''rocksdb_put'' (db_c db)])))"

definition Delete ::
  "cgo \<Rightarrow> engine \<Rightarrow> DB \<Rightarrow> handle_ptr \<Rightarrow> goslice \<Rightarrow> error option outcome \<times> event list" where
  "Delete rt eng db opts key =
     (let cKey = byteToChar rt key
      in case opts of
           None \<Rightarrow> (Panicked NilDereference, [])
         | Some opts_c \<Rightarrow>
             (let cErr = rocksdb_delete eng (db_c db) opts_c cKey (of_nat (len_bytes key))
              in if cErr \<noteq> nil
                 then (Returned (Some (errors_New (GoString rt cErr))),
                       [Native ''rocksdb_delete'' (db_c db), Free cErr])
                 else (Returned None, [Native ''rocksdb_delete'' (db_c db)])))"

definition Merge ::
  "cgo \<Rightarrow> engine \<Rightarrow> DB \<Rightarrow> handle_ptr \<Rightarrow> goslice \<Rightarrow> goslice \<Rightarrow> error option outcome \<times> event list" where
  "Merge rt eng db opts key val =
     (let cKey = byteToChar rt key;
          cValue = byteToChar rt val
      in if opened db = 0 then (Returned (Some errDBClosed), [RLock, RUnlock])
         else case opts of
           None \<Rightarrow> (Panicked NilDereference, [RLock])
         | Some opts_c \<Rightarrow>
             (let cErr = rocksdb_merge eng (db_c db) opts_c cKey (of_nat (len_bytes key))
                           cValue (of_nat (len_bytes val))
              in if cErr \<noteq> nil
                 then (Returned (Some (errors_New (GoString rt cErr))),
                       [RLock, Native ''rocksdb_merge'' (db_c db), RUnlock, Free cErr])
                 else (Returned None, [RLock, Native ''rocksdb_merge'' (db_c db), RUnlock])))"

definition Write ::
  "cgo \<Rightarrow> engine \<Rightarrow> DB \<Rightarrow> handle_ptr \<Rightarrow> handle_ptr \<Rightarrow> error option outcome \<times> event list" where
  "Write rt eng db opts batch =
     (case opts of
        None \<Rightarrow> (Panicked NilDereference, [])
      | Some opts_c \<Rightarrow>
         (case batch of
            None \<Rightarrow> (Panicked NilDereference, [])
          | Some batch_c \<Rightarrow>
              (let cErr = rocksdb_write eng (db_c db) opts_c batch_c
               in if cErr \<noteq> nil
                  then (Returned (Some (errors_New (GoString rt cErr))),
                        [Native ''rocksdb_write'' (db_c db), Free cErr])
                  else (Returned None, [Native ''rocksdb_write'' (db_c db)]))))"

subsection \<open>Properties, sizes, maintenance\<close>

text \<open>The deferred \<open>C.free\<close> calls run last, the latest deferred first.\<close>

definition GetProperty :: "cgo \<Rightarrow> engine \<Rightarrow> DB \<Rightarrow> string \<Rightarrow> string \<times> event list" where
  "GetProperty rt eng db propName =
     (let cprop = CString rt 0 propName
      in if opened db = 0 then ([], [RLock, RUnlock, Free cprop])
         else
           (let cValue = rocksdb_property_value eng (db_c db) cprop
            in (GoString rt cValue,
                [RLock, Native ''rocksdb_property_value'' (db_c db), RUnlock, Free cValue, Free cprop])))"

text \<open>
  \<open>GetApproximateSizes\<close> returns a \<open>[]uint64\<close>: \<open>None\<close> is the nil slice.  The two
  \<open>cByteSlice\<close> calls of iteration \<open>i\<close> are calls \<open>2 * i\<close> and \<open>2 * i + 1\<close>; \<open>+=\<close> on
  \<open>uint64\<close> wraps.
\<close>

definition GetApproximateSizes ::
  "cgo \<Rightarrow> engine \<Rightarrow> DB \<Rightarrow> Range list \<Rightarrow> bool \<Rightarrow> 64 word list option \<times> event list" where
  "GetApproximateSizes rt eng db ranges includeMem =
     (let n = length ranges;
          sizes = replicate n 0
      in if n = 0 then (Some sizes, [])
         else
           (let memSizes = replicate n 0
            in if opened db = 0 then (None, [RLock, RUnlock])
               else
                 (let cStarts = map (\<lambda>(i, r). cByteSlice rt (2 * i) (Start r)) (enumerate 0 ranges);
                      cStartLens = map (\<lambda>r. of_nat (len_bytes (Start r))) ranges;
                      cLimits = map (\<lambda>(i, r). cByteSlice rt (2 * i + 1) (Limit r)) (enumerate 0 ranges);
                      cLimitLens = map (\<lambda>r. of_nat (len_bytes (Limit r))) ranges;
                      sizes = fill sizes
                        (rocksdb_approximate_sizes eng (db_c db) (of_nat n)
                           cStarts cStartLens cLimits cLimitLens);
                      memSizes =
                        (if includeMem
                         then fill memSizes
                           (rocksdb_approximate_memtable_sizes eng (db_c db) (of_nat n)
                              cStarts cStartLens cLimits cLimitLens)
                         else memSizes);
                      frees = concat (map (\<lambda>i. [Free (cStarts ! i), Free (cLimits ! i)]) [0..<n]);
                      sizes = (if includeMem then map (\<lambda>(a, s). a + s) (zip sizes memSizes) else sizes)
                  in (Some sizes,
                      [RLock, Native ''rocksdb_approximate_sizes'' (db_c db)]
                      @ (if includeMem then [Native ''rocksdb_approximate_memtable_sizes'' (db_c db)] else [])
                      @ [RUnlock] @ frees))))"

definition CompactRange :: "cgo \<Rightarrow> DB \<Rightarrow> Range \<Rightarrow> event list" where
  "CompactRange rt db r =
     (if opened db = 0 then [RLock, RUnlock]
      else if Start r = None \<and> Limit r = None
      then [RLock, Native ''rocksdb_compact_range'' (db_c db), RUnlock]
      else
        (let cStart = cByteSlice rt 0 (Start r);
             cLimit = cByteSlice rt 1 (Limit r)
         in [RLock, Native ''rocksdb_compact_range'' (db_c db), RUnlock, Free cLimit, Free cStart]))"

definition Flush :: "cgo \<Rightarrow> engine \<Rightarrow> DB \<Rightarrow> handle_ptr \<Rightarrow> error option outcome \<times> event list" where
  "Flush rt eng db opts =
     (if opened db = 0 then (Returned (Some errDBClosed), [RLock, RUnlock])
      else case opts of
        None \<Rightarrow> (Panicked NilDereference, [RLock])
      | Some opts_c \<Rightarrow>
          (let cErr = rocksdb_flush eng (db_c db) opts_c
           in if cErr \<noteq> nil
              then (Returned (Some (errors_New (GoString rt cErr))),
                    [RLock, Native ''rocksdb_flush'' (db_c db), RUnlock, Free cErr])
              else (Returned None, [RLock, Native ''rocksdb_flush'' (db_c db), RUnlock])))"

definition DisableFileDeletions :: "cgo \<Rightarrow> engine \<Rightarrow> DB \<Rightarrow> error option outcome \<times> event list" where
  "DisableFileDeletions rt eng db =
     (if opened db = 0 then (Returned (Some errDBClosed), [RLock, RUnlock])
      else
        (let cErr = rocksdb_disable_file_deletions eng (db_c db)
         in if cErr \<noteq> nil
            then (Returned (Some (errors_New (GoString rt cErr))),
                  [RLock, Native ''rocksdb_disable_file_deletions'' (db_c db), RUnlock, Free cErr])
            else (Returned None, [RLock, Native ''rocksdb_disable_file_deletions'' (db_c db), RUnlock])))"

definition EnableFileDeletions ::
  "cgo \<Rightarrow> engine \<Rightarrow> DB \<Rightarrow> bool \<Rightarrow> error option outcome \<times> event list" where
  "EnableFileDeletions rt eng db force =
     (if opened db = 0 then (Returned (Some errDBClosed), [RLock, RUnlock])
      else
        (let cErr = rocksdb_enable_file_deletions eng (db_c db) (boolToChar rt force)
         in if cErr \<noteq> nil
            then (Returned (Some (errors_New (GoString rt cErr))),
                  [RLock, Native ''rocksdb_enable_file_deletions'' (db_c db), RUnlock, Free cErr])
            else (Returned None, [RLock, Native ''rocksdb_enable_file_deletions'' (db_c db), RUnlock])))"

subsection \<open>Shutdown and Close\<close>

text \<open>
  These two return the handle as they leave it.  No other method assigns to a field of
  the handle.
\<close>

definition Shutdown :: "DB \<Rightarrow> DB \<times> event list" where
  "Shutdown db =
     (if opened db = 0 then (db, [RLock, RUnlock])
      else (db, [RLock, Native ''rocksdb_shutdown'' (db_c db), RUnlock]))"

definition Close :: "DB \<Rightarrow> DB \<times> event list" where
  "Close db = (db\<lparr> opened := 0 \<rparr>, [Lock, Native ''rocksdb_close'' (db_c db), Unlock])"

subsection \<open>Method calls on a handle\<close>

text \<open>
  A call of one of the methods above with its arguments, the handle it leaves and
  the events it causes.
\<close>

datatype call =
    Call_Get handle_ptr goslice
  | Call_GetBytes handle_ptr goslice
  | Call_GetCF handle_ptr handle_ptr goslice
  | Call_MultiGetBytes handle_ptr "goslice list" "goslice list" "error option list"
  | Call_Put handle_ptr goslice goslice
  | Call_Delete handle_ptr goslice
  | Call_Merge handle_ptr goslice goslice
  | Call_Write handle_ptr handle_ptr
  | Call_GetProperty string
  | Call_GetApproximateSizes "Range list" bool
  | Call_CompactRange Range
  | Call_Flush handle_ptr
  | Call_DisableFileDeletions
  | Call_EnableFileDeletions bool
  | Call_Shutdown
  | Call_Close

fun invoke :: "cgo \<Rightarrow> engine \<Rightarrow> DB \<Rightarrow> call \<Rightarrow> DB \<times> event list" where
  "invoke rt eng db (Call_Get opts key) = (db, snd (Get rt eng db opts key))"
| "invoke rt eng db (Call_GetBytes opts key) = (db, snd (GetBytes rt eng db opts key))"
| "invoke rt eng db (Call_GetCF opts cf key) = (db, snd (GetCF rt eng db opts cf key))"
| "invoke rt eng db (Call_MultiGetBytes opts keyList values errs) =
     (db, snd (snd (snd (MultiGetBytes rt eng db opts keyList values errs))))"
| "invoke rt eng db (Call_Put opts key val) = (db, snd (Put rt eng db opts key val))"
| "invoke rt eng db (Call_Delete opts key) = (db, snd (Delete rt eng db opts key))"
| "invoke rt eng db (Call_Merge opts key val) = (db, snd (Merge rt eng db opts key val))"
| "invoke rt eng db (Call_Write opts batch) = (db, snd (Write rt eng db opts batch))"
| "invoke rt eng db (Call_GetProperty propName) = (db, snd (GetProperty rt eng db propName))"
| "invoke rt eng db (Call_GetApproximateSizes ranges includeMem) =
     (db, snd (GetApproximateSizes rt eng db ranges includeMem))"
| "invoke rt eng db (Call_CompactRange r) = (db, CompactRange rt db r)"
| "invoke rt eng db (Call_Flush opts) = (db, snd (Flush rt eng db opts))"
| "invoke rt eng db Call_DisableFileDeletions = (db, snd (DisableFileDeletions rt eng db))"
| "invoke rt eng db (Call_EnableFileDeletions force) = (db, snd (EnableFileDeletions rt eng db force))"
| "invoke rt eng db Call_Shutdown = Shutdown db"
| "invoke rt eng db Call_Close = Close db"

subsection \<open>A concrete runtime, two engines and a handle\<close>

text \<open>
  Concrete inputs for the instances below: a runtime with fixed addresses, an engine
  whose calls all succeed (every key is missing, every property is empty), an engine
  whose calls all fail with the error string at address 7, the handle that \<open>OpenDb\<close>
  returns on the first engine, and that handle after \<open>Close\<close>.
\<close>

definition test_rt :: cgo where
  "test_rt = \<lparr>
     byteToChar = (\<lambda>b. if len_bytes b = 0 then nil else 1000),
     charToByte = (\<lambda>p n. if p = nil then None else Some (replicate (unat n) (of_nat p))),
     cByteSlice = (\<lambda>i b. if len_bytes b = 0 then nil else 2000 + i),
     CString = (\<lambda>i s. 3000 + i),
     GoString = (\<lambda>p. if p = 7 then ''IO error'' else []),
     GoBytes = (\<lambda>p n. replicate (unat n) 1),
     boolToChar = (\<lambda>b. if b then 1 else 0) \<rparr>"

definition test_engine :: engine where
  "test_engine = \<lparr>
     rocksdb_open = (\<lambda>opts cName. (42, nil)),
     rocksdb_open_column_families = (\<lambda>opts cName n cNames cOpts. (42, map (\<lambda>p. p + 100) cOpts, nil)),
     rocksdb_open_for_read_only_column_families =
       (\<lambda>opts cName n cNames cOpts e. (42, map (\<lambda>p. p + 100) cOpts, nil)),
     rocksdb_get = (\<lambda>h opts cKey cKeyLen. (nil, 0, nil)),
     rocksdb_get_cf = (\<lambda>h opts cf cKey cKeyLen. (nil, 0, nil)),
     rocksdb_multi_get =
       (\<lambda>h opts n cKeys cKeySizes. (map (\<lambda>k. nil) cKeys, map (\<lambda>k. 0) cKeys, map (\<lambda>k. nil) cKeys)),
     rocksdb_put = (\<lambda>h opts cKey cKeyLen cValue cValueLen. nil),
     rocksdb_delete = (\<lambda>h opts cKey cKeyLen. nil),
     rocksdb_merge = (\<lambda>h opts cKey cKeyLen cValue cValueLen. nil),
     rocksdb_write = (\<lambda>h opts batch. nil),
     rocksdb_property_value = (\<lambda>h cprop. nil),
     rocksdb_approximate_sizes = (\<lambda>h n cStarts cStartLens cLimits cLimitLens. map (\<lambda>k. 10) cStarts),
     rocksdb_approximate_memtable_sizes = (\<lambda>h n cStarts cStartLens cLimits cLimitLens. map (\<lambda>k. 1) cStarts),
     rocksdb_flush = (\<lambda>h opts. nil),
     rocksdb_disable_file_deletions = (\<lambda>h. nil),
     rocksdb_enable_file_deletions = (\<lambda>h force. nil) \<rparr>"

definition failing_engine :: engine where
  "failing_engine = \<lparr>
     rocksdb_open = (\<lambda>opts cName. (nil, 7)),
     rocksdb_open_column_families = (\<lambda>opts cName n cNames cOpts. (nil, [], 7)),
     rocksdb_open_for_read_only_column_families = (\<lambda>opts cName n cNames cOpts e. (nil, [], 7)),
     rocksdb_get = (\<lambda>h opts cKey cKeyLen. (nil, 0, 7)),
     rocksdb_get_cf = (\<lambda>h opts cf cKey cKeyLen. (nil, 0, 7)),
     rocksdb_multi_get =
       (\<lambda>h opts n cKeys cKeySizes. (map (\<lambda>k. nil) cKeys, map (\<lambda>k. 0) cKeys, map (\<lambda>k. 7) cKeys)),
     rocksdb_put = (\<lambda>h opts cKey cKeyLen cValue cValueLen. 7),
     rocksdb_delete = (\<lambda>h opts cKey cKeyLen. 7),
     rocksdb_merge = (\<lambda>h opts cKey cKeyLen cValue cValueLen. 7),
     rocksdb_write = (\<lambda>h opts batch. 7),
     rocksdb_property_value = (\<lambda>h cprop. nil),
     rocksdb_approximate_sizes = (\<lambda>h n cStarts cStartLens cLimits cLimitLens. map (\<lambda>k. 0) cStarts),
     rocksdb_approximate_memtable_sizes = (\<lambda>h n cStarts cStartLens cLimits cLimitLens. map (\<lambda>k. 0) cStarts),
     rocksdb_flush = (\<lambda>h opts. 7),
     rocksdb_disable_file_deletions = (\<lambda>h. 7),
     rocksdb_enable_file_deletions = (\<lambda>h force. 7) \<rparr>"

definition test_db :: DB where
  "test_db = \<lparr> db_c = 42, db_name = ''testdb'', db_opts = Some 1, opened = 1 \<rparr>"

definition closed_db :: DB where
  "closed_db = fst (Close test_db)"

text \<open>A filter that keeps every pair and rewrites the value of the key \<open>[1]\<close>, and one that removes.\<close>

definition rewrite_filter :: CompactionFilter where
  "rewrite_filter =
     \<lparr> Filter = (\<lambda>level key val. if key = Some [1] then (False, Some [2, 3]) else (False, None)),
       Name = ''f1'' \<rparr>"

definition remove_filter :: CompactionFilter where
  "remove_filter = \<lparr> Filter = (\<lambda>level key val. (True, Some [9])), Name = ''drop'' \<rparr>"

text \<open>The registry after registering the two filters, in this order.\<close>

definition test_filters :: "compactionFilterWrapper COWList" where
  "test_filters =
     snd (registerCompactionFilter test_rt
            (snd (registerCompactionFilter test_rt NewCOWList rewrite_filter)) remove_filter)"

section \<open>The registry: indices and published entries\<close>

lemma Append_eq: "Append c i = (int (length c), c @ [i])"
proof -
  have "replicate (Suc (length c)) (None :: 'a option) = replicate (length c) None @ [None]"
    by (simp add: replicate_append_same)
  then have "copy_slice (make_slice (length c + 1)) c = c @ [None]"
    by (simp add: make_slice_def copy_slice_def del: replicate_Suc)
  then show ?thesis
    by (simp add: Append_def Let_def)
qed

lemma Appends_length: "length (Appends c items) = length items"
  by (induction items arbitrary: c) (simp_all add: Let_def)

lemma Appends_nth:
  "k < length items \<Longrightarrow> Appends c items ! k = (int (length c) + int k, c @ take (Suc k) items)"
proof (induction items arbitrary: c k)
  case Nil
  then show ?case by simp
next
  case (Cons x xs)
  show ?case
  proof (cases k)
    case 0
    then show ?thesis by (simp add: Let_def Append_eq)
  next
    case (Suc j)
    with Cons.prems have "j < length xs" by simp
    from Cons.IH[OF this, of "c @ [x]"] Suc show ?thesis
      by (simp add: Let_def Append_eq)
  qed
qed

lemma Get_item_nat: "i < length xs \<Longrightarrow> Get_item xs (int i) = Returned (xs ! i)"
  by (simp add: Get_item_def)

lemma Get_item_append:
  "i < length xs \<Longrightarrow> Get_item (xs @ ys) (int i) = Returned (xs ! i)"
  by (simp add: Get_item_def nth_append)

text \<open>
  Claim C3.  In every run of \<open>Append\<close> calls on a registry \<open>c\<close>, the \<open>k\<close>-th call returns
  the length of the list it publishes minus one, which is the initial length plus
  \<open>k\<close>; so the returned indices increase strictly and none is returned twice.  In the
  list published by the \<open>k\<close>-th call, \<open>Get\<close> at the index returned by any call up to the
  \<open>k\<close>-th returns the item appended by that call, and \<open>Get\<close> at an index of the
  initial list returns the entry it held there.
\<close>

theorem Append_index_and_preservation:
  "length (Appends c items) = length items \<and>
   (\<forall>k < length items.
      fst (Appends c items ! k) = int (length (snd (Appends c items ! k))) - 1 \<and>
      fst (Appends c items ! k) = int (length c) + int k \<and>
      (\<forall>j < k. fst (Appends c items ! j) < fst (Appends c items ! k)) \<and>
      (\<forall>j \<le> k. Get_item (snd (Appends c items ! k)) (fst (Appends c items ! j)) = Returned (items ! j)) \<and>
      (\<forall>i < length c. Get_item (snd (Appends c items ! k)) (int i) = Returned (c ! i)))"
proof -
  have "fst (Appends c items ! k) = int (length (snd (Appends c items ! k))) - 1"
    if "k < length items" for k using that by (simp add: Appends_nth)
  moreover have "fst (Appends c items ! k) = int (length c) + int k"
    if "k < length items" for k using that by (simp add: Appends_nth)
  moreover have "fst (Appends c items ! j) < fst (Appends c items ! k)"
    if "k < length items" "j < k" for j k using that by (simp add: Appends_nth)
  moreover have "Get_item (snd (Appends c items ! k)) (fst (Appends c items ! j)) = Returned (items ! j)"
    if "k < length items" "j \<le> k" for j k
  proof -
    from that have j: "j < length items" by simp
    have eq: "int (length c) + int j = int (length c + j)" by simp
    have "Get_item (c @ take (Suc k) items) (int (length c + j)) = Returned ((c @ take (Suc k) items) ! (length c + j))"
      using that by (intro Get_item_nat) simp
    moreover have "(c @ take (Suc k) items) ! (length c + j) = items ! j"
      using that by (simp add: nth_append)
    ultimately have "Get_item (c @ take (Suc k) items) (int (length c) + int j) = Returned (items ! j)"
      by (simp only: eq)
    then show ?thesis using that j by (simp only: Appends_nth fst_conv snd_conv)
  qed
  moreover have "Get_item (snd (Appends c items ! k)) (int i) = Returned (c ! i)"
    if "k < length items" "i < length c" for i k
    using that by (simp add: Appends_nth Get_item_append)
  moreover note Appends_length [of c items]
  ultimately show ?thesis by blast
qed

theorem Append_index_and_preservation_witness:
  "Appends [Some (10::nat)] [Some 20, None, Some 30]
     = [(1, [Some 10, Some 20]), (2, [Some 10, Some 20, None]),
        (3, [Some 10, Some 20, None, Some 30])] \<and>
   fst (Appends [Some (10::nat)] [Some 20, None, Some 30] ! 2) = 3 \<and>
   Get_item (snd (Appends [Some (10::nat)] [Some 20, None, Some 30] ! 2)) 1 = Returned (Some 20) \<and>
   Get_item (snd (Appends [Some (10::nat)] [Some 20, None, Some 30] ! 2)) 0 = Returned (Some 10)"
proof -
  have run: "Appends [Some (10::nat)] [Some 20, None, Some 30]
     = [(1, [Some 10, Some 20]), (2, [Some 10, Some 20, None]),
        (3, [Some 10, Some 20, None, Some 30])]"
    by (simp add: Append_eq Let_def)
  have k: "(2::nat) < length [Some (20::nat), None, Some 30]" "(0::nat) \<le> 2" "(0::nat) < length [Some (10::nat)]"
    by simp_all
  note t = Append_index_and_preservation [of "[Some (10::nat)]" "[Some 20, None, Some 30]"]
  from t k have "fst (Appends [Some (10::nat)] [Some 20, None, Some 30] ! 2) = int (length [Some (10::nat)]) + int 2"
    by blast
  moreover from t k have
    "Get_item (snd (Appends [Some (10::nat)] [Some 20, None, Some 30] ! 2))
       (fst (Appends [Some (10::nat)] [Some 20, None, Some 30] ! 0)) = Returned ([Some 20, None, Some 30] ! 0)"
    by blast
  moreover from t k have
    "Get_item (snd (Appends [Some (10::nat)] [Some 20, None, Some 30] ! 2)) (int 0) = Returned ([Some (10::nat)] ! 0)"
    by blast
  ultimately show ?thesis unfolding run by simp
qed

section \<open>The dispatch shim\<close>

text \<open>
  Claim C4.  For a wrapper registered at \<open>idx\<close> and whatever its \<open>Filter\<close> returns for
  the level, key and value handed over: if it returns remove = true, the shim
  returns 1 and leaves the three output cells as they were, whatever the
  replacement value; if it returns remove = false and a nil replacement, the shim
  returns 0 and leaves the output cells as they were; if it returns remove = false
  and a non-nil replacement \<open>b\<close>, the shim stores the pointer to \<open>b\<close> and the length of
  \<open>b\<close>, sets the changed flag to 1 and returns 0.
\<close>

theorem filter_shim_translation:
  assumes "Get_item compactionFilters idx = Returned (Some w)"
    and "Filter (filter_w w) (sint cLevel) (charToByte rt cKey cKeyLen) (charToByte rt cVal cValLen)
           = (remove, newVal)"
  shows "(remove \<longrightarrow>
            gorocksdb_compactionfilter_filter rt compactionFilters idx cLevel cKey cKeyLen cVal cValLen out
              = Returned (1, out)) \<and>
         (\<not> remove \<and> newVal = None \<longrightarrow>
            gorocksdb_compactionfilter_filter rt compactionFilters idx cLevel cKey cKeyLen cVal cValLen out
              = Returned (0, out)) \<and>
         (\<forall>b. \<not> remove \<and> newVal = Some b \<longrightarrow>
            gorocksdb_compactionfilter_filter rt compactionFilters idx cLevel cKey cKeyLen cVal cValLen out
              = Returned (0, out\<lparr> cNewVal := byteToChar rt (Some b),
                                   cNewValLen := of_nat (length b),
                                   cValChanged := 1 \<rparr>))"
  using assms
  by (simp add: gorocksdb_compactionfilter_filter_def Let_def len_bytes_def)

lemma test_filters_eq:
  "test_filters = [Some \<lparr> name_w = 3000, filter_w = rewrite_filter \<rparr>,
                   Some \<lparr> name_w = 3000, filter_w = remove_filter \<rparr>]"
  by (simp add: test_filters_def registerCompactionFilter_def Append_eq NewCOWList_def test_rt_def)

theorem filter_shim_translation_witness:
  "Get_item test_filters 0 = Returned (Some \<lparr> name_w = 3000, filter_w = rewrite_filter \<rparr>) \<and>
   Get_item test_filters 1 = Returned (Some \<lparr> name_w = 3000, filter_w = remove_filter \<rparr>) \<and>
   gorocksdb_compactionfilter_filter test_rt test_filters 1 0 1 1 5 1
       \<lparr> cNewVal = 0, cNewValLen = 0, cValChanged = 0 \<rparr>
     = Returned (1, \<lparr> cNewVal = 0, cNewValLen = 0, cValChanged = 0 \<rparr>) \<and>
   gorocksdb_compactionfilter_filter test_rt test_filters 0 0 2 1 5 1
       \<lparr> cNewVal = 0, cNewValLen = 0, cValChanged = 0 \<rparr>
     = Returned (0, \<lparr> cNewVal = 0, cNewValLen = 0, cValChanged = 0 \<rparr>) \<and>
   gorocksdb_compactionfilter_filter test_rt test_filters 0 0 1 1 5 1
       \<lparr> cNewVal = 0, cNewValLen = 0, cValChanged = 0 \<rparr>
     = Returned (0, \<lparr> cNewVal = 1000, cNewValLen = 2, cValChanged = 1 \<rparr>)"
proof -
  have g0: "Get_item test_filters 0 = Returned (Some \<lparr> name_w = 3000, filter_w = rewrite_filter \<rparr>)"
    by (simp add: test_filters_eq Get_item_def)
  have g1: "Get_item test_filters 1 = Returned (Some \<lparr> name_w = 3000, filter_w = remove_filter \<rparr>)"
    by (simp add: test_filters_eq Get_item_def)
  have f1: "Filter (filter_w \<lparr> name_w = 3000, filter_w = remove_filter \<rparr>) (sint (0::cint))
              (charToByte test_rt 1 1) (charToByte test_rt 5 1) = (True, Some [9])"
    by (simp add: remove_filter_def)
  have f2: "Filter (filter_w \<lparr> name_w = 3000, filter_w = rewrite_filter \<rparr>) (sint (0::cint))
              (charToByte test_rt 2 1) (charToByte test_rt 5 1) = (False, None)"
    by (simp add: rewrite_filter_def test_rt_def nil_def)
  have f3: "Filter (filter_w \<lparr> name_w = 3000, filter_w = rewrite_filter \<rparr>) (sint (0::cint))
              (charToByte test_rt 1 1) (charToByte test_rt 5 1) = (False, Some [2, 3])"
    by (simp add: rewrite_filter_def test_rt_def nil_def)
  have b: "byteToChar test_rt (Some [2, 3]) = 1000"
    by (simp add: test_rt_def len_bytes_def)
  from filter_shim_translation [OF g1 f1, of "\<lparr> cNewVal = 0, cNewValLen = 0, cValChanged = 0 \<rparr>"]
       filter_shim_translation [OF g0 f2, of "\<lparr> cNewVal = 0, cNewValLen = 0, cValChanged = 0 \<rparr>"]
       filter_shim_translation [OF g0 f3, of "\<lparr> cNewVal = 0, cNewValLen = 0, cValChanged = 0 \<rparr>"]
       g0 g1 b
  show ?thesis by simp
qed

section \<open>The access guard\<close>

lemma OpenDb_test_db:
  "OpenDb test_rt test_engine (Some 1) ''testdb''
     = (Returned (Some test_db, None), [Native ''rocksdb_open'' 1, Free 3000])"
  by (simp add: OpenDb_def test_rt_def test_engine_def test_db_def nil_def)

lemma closed_db_opened: "opened closed_db = 0"
  by (simp add: closed_db_def Close_def)

text \<open>
  Claim C1.  On a handle whose \<open>opened\<close> field is 0, each of \<open>Get\<close>, \<open>GetBytes\<close>, \<open>GetCF\<close>,
  \<open>Merge\<close>, \<open>Flush\<close>, \<open>DisableFileDeletions\<close> and \<open>EnableFileDeletions\<close> returns
  \<open>errDBClosed\<close>, whatever its other arguments (nil option pointers included) and
  whatever the engine would answer: it takes and releases the read lock and does
  nothing else, so it does not panic and makes no call into the C library.
\<close>

theorem gated_operations_closed:
  "opened db = 0 \<Longrightarrow>
     Get rt eng db opts key = (Returned (None, Some errDBClosed), [RLock, RUnlock]) \<and>
     GetBytes rt eng db opts key = (Returned (None, Some errDBClosed), [RLock, RUnlock]) \<and>
     GetCF rt eng db opts cf key = (Returned (None, Some errDBClosed), [RLock, RUnlock]) \<and>
     Merge rt eng db wopts key val = (Returned (Some errDBClosed), [RLock, RUnlock]) \<and>
     Flush rt eng db fopts = (Returned (Some errDBClosed), [RLock, RUnlock]) \<and>
     DisableFileDeletions rt eng db = (Returned (Some errDBClosed), [RLock, RUnlock]) \<and>
     EnableFileDeletions rt eng db force = (Returned (Some errDBClosed), [RLock, RUnlock]) \<and>
     filter is_native [RLock, RUnlock] = []"
  by (simp add: Get_def GetBytes_def GetCF_def Merge_def Flush_def
      DisableFileDeletions_def EnableFileDeletions_def)

theorem gated_operations_closed_witness:
  "opened closed_db = 0 \<and>
   Get test_rt failing_engine closed_db None (Some [1]) = (Returned (None, Some errDBClosed), [RLock, RUnlock]) \<and>
   GetBytes test_rt failing_engine closed_db None (Some [1]) = (Returned (None, Some errDBClosed), [RLock, RUnlock]) \<and>
   GetCF test_rt failing_engine closed_db None None (Some [1]) = (Returned (None, Some errDBClosed), [RLock, RUnlock]) \<and>
   Merge test_rt failing_engine closed_db None (Some [1]) (Some [2]) = (Returned (Some errDBClosed), [RLock, RUnlock]) \<and>
   Flush test_rt failing_engine closed_db None = (Returned (Some errDBClosed), [RLock, RUnlock]) \<and>
   DisableFileDeletions test_rt failing_engine closed_db = (Returned (Some errDBClosed), [RLock, RUnlock]) \<and>
   EnableFileDeletions test_rt failing_engine closed_db True = (Returned (Some errDBClosed), [RLock, RUnlock])"
  using gated_operations_closed [OF closed_db_opened, of test_rt failing_engine None "Some [1]" None None "Some [2]" None True]
    closed_db_opened
  by simp

text \<open>
  Claim C2 as stated fails for \<open>Merge\<close>: on a closed handle it returns \<open>errDBClosed\<close>
  under the read lock and does not call the engine.
\<close>

theorem merge_closed_counterexample:
  "Merge test_rt test_engine closed_db (Some 5) (Some [1]) (Some [2])
     = (Returned (Some errDBClosed), [RLock, RUnlock])"
  by (simp add: Merge_def closed_db_def Close_def)

text \<open>
  Claim C2, amended.  \<open>Put\<close>, \<open>Delete\<close> and \<open>Write\<close> never return \<open>errDBClosed\<close>, do the
  same whatever the \<open>opened\<close> field holds, and with non-nil option (and batch)
  pointers their first event is the call into the engine, with no lock taken.
  \<open>Merge\<close> is guarded: on a closed handle it returns \<open>errDBClosed\<close> without calling
  the engine, and on an open one it calls the engine under the read lock.
\<close>

theorem ungated_writes:
  "fst (Put rt eng db opts key val) \<noteq> Returned (Some errDBClosed) \<and>
   fst (Delete rt eng db opts key) \<noteq> Returned (Some errDBClosed) \<and>
   fst (Write rt eng db opts batch) \<noteq> Returned (Some errDBClosed) \<and>
   Put rt eng (db\<lparr>opened := flag\<rparr>) opts key val = Put rt eng db opts key val \<and>
   Delete rt eng (db\<lparr>opened := flag\<rparr>) opts key = Delete rt eng db opts key \<and>
   Write rt eng (db\<lparr>opened := flag\<rparr>) opts batch = Write rt eng db opts batch \<and>
   (opts \<noteq> None \<longrightarrow>
      take 1 (snd (Put rt eng db opts key val)) = [Native ''rocksdb_put'' (db_c db)] \<and>
      take 1 (snd (Delete rt eng db opts key)) = [Native ''rocksdb_delete'' (db_c db)] \<and>
      (batch \<noteq> None \<longrightarrow> take 1 (snd (Write rt eng db opts batch)) = [Native ''rocksdb_write'' (db_c db)])) \<and>
   (opened db = 0 \<longrightarrow> Merge rt eng db opts key val = (Returned (Some errDBClosed), [RLock, RUnlock])) \<and>
   (opened db \<noteq> 0 \<and> opts \<noteq> None \<longrightarrow>
      take 2 (snd (Merge rt eng db opts key val)) = [RLock, Native ''rocksdb_merge'' (db_c db)])"
proof -
  have p: "fst (Put rt eng db opts key val) \<noteq> Returned (Some errDBClosed)"
    by (simp add: Put_def Let_def split: option.splits)
  have d: "fst (Delete rt eng db opts key) \<noteq> Returned (Some errDBClosed)"
    by (simp add: Delete_def Let_def split: option.splits)
  have w: "fst (Write rt eng db opts batch) \<noteq> Returned (Some errDBClosed)"
    by (simp add: Write_def Let_def split: option.splits)
  have p2: "Put rt eng (db\<lparr>opened := flag\<rparr>) opts key val = Put rt eng db opts key val"
    by (simp add: Put_def Let_def split: option.splits)
  have d2: "Delete rt eng (db\<lparr>opened := flag\<rparr>) opts key = Delete rt eng db opts key"
    by (simp add: Delete_def Let_def split: option.splits)
  have w2: "Write rt eng (db\<lparr>opened := flag\<rparr>) opts batch = Write rt eng db opts batch"
    by (simp add: Write_def Let_def split: option.splits)
  have p3: "take 1 (snd (Put rt eng db opts key val)) = [Native ''rocksdb_put'' (db_c db)]" if "opts \<noteq> None"
    using that by (auto simp add: Put_def Let_def)
  have d3: "take 1 (snd (Delete rt eng db opts key)) = [Native ''rocksdb_delete'' (db_c db)]" if "opts \<noteq> None"
    using that by (auto simp add: Delete_def Let_def)
  have w3: "take 1 (snd (Write rt eng db opts batch)) = [Native ''rocksdb_write'' (db_c db)]"
    if "opts \<noteq> None" "batch \<noteq> None"
    using that by (auto simp add: Write_def Let_def)
  have m: "Merge rt eng db opts key val = (Returned (Some errDBClosed), [RLock, RUnlock])" if "opened db = 0"
    using that by (simp add: Merge_def)
  have m2: "take 2 (snd (Merge rt eng db opts key val)) = [RLock, Native ''rocksdb_merge'' (db_c db)]"
    if "opened db \<noteq> 0" "opts \<noteq> None"
    using that by (auto simp add: Merge_def Let_def)
  from p d w p2 d2 w2 p3 d3 w3 m m2 show ?thesis by blast
qed

theorem ungated_writes_witness:
  "Put test_rt test_engine closed_db (Some 5) (Some [1]) (Some [2]) = (Returned None, [Native ''rocksdb_put'' 42]) \<and>
   Delete test_rt test_engine closed_db (Some 5) (Some [1]) = (Returned None, [Native ''rocksdb_delete'' 42]) \<and>
   Write test_rt test_engine closed_db (Some 5) (Some 6) = (Returned None, [Native ''rocksdb_write'' 42]) \<and>
   opened closed_db = 0 \<and> opened test_db \<noteq> 0 \<and>
   Merge test_rt test_engine closed_db (Some 5) (Some [1]) (Some [2]) = (Returned (Some errDBClosed), [RLock, RUnlock]) \<and>
   take 2 (snd (Merge test_rt test_engine test_db (Some 5) (Some [1]) (Some [2]))) = [RLock, Native ''rocksdb_merge'' 42]"
proof -
  have c: "opened closed_db = 0" by (simp add: closed_db_def Close_def)
  have o: "opened test_db \<noteq> 0" by (simp add: test_db_def)
  have s: "Some (5::nat) \<noteq> None" by simp
  have db: "closed_db = test_db\<lparr>opened := 0\<rparr>" by (simp add: closed_db_def Close_def)
  note a = ungated_writes [of test_rt test_engine closed_db "Some 5" "Some [1]" "Some [2]" "Some 6" 0]
  note b = ungated_writes [of test_rt test_engine test_db "Some 5" "Some [1]" "Some [2]" "Some 6" 0]
  have 1: "Put test_rt test_engine closed_db (Some 5) (Some [1]) (Some [2]) = (Returned None, [Native ''rocksdb_put'' 42])"
    by (simp add: Put_def test_engine_def test_rt_def nil_def closed_db_def Close_def test_db_def len_bytes_def)
  have 2: "Delete test_rt test_engine closed_db (Some 5) (Some [1]) = (Returned None, [Native ''rocksdb_delete'' 42])"
    by (simp add: Delete_def test_engine_def test_rt_def nil_def closed_db_def Close_def test_db_def len_bytes_def)
  have 3: "Write test_rt test_engine closed_db (Some 5) (Some 6) = (Returned None, [Native ''rocksdb_write'' 42])"
    by (simp add: Write_def test_engine_def test_rt_def nil_def closed_db_def Close_def test_db_def len_bytes_def)
  have 4: "db_c test_db = 42" by (simp add: test_db_def)
  from a b c o 1 2 3 4 show ?thesis by simp
qed

section \<open>Batch reads on a closed handle\<close>





section \<open>Batch reads with no keys\<close>

text \<open>
  Claim C7 does not hold of the code.  On an open handle, \<open>MultiGetBytes\<close> with an empty
  key list (and valid read options) panics at \<open>&cKeys[0]\<close> while the argument list
  of \<open>rocksdb_multi_get\<close> is evaluated: no call into the engine is made, the output
  slices are untouched, and the read lock stays taken.  \<open>GetApproximateSizes\<close>, which
  passes its arrays the same way, returns the empty slice before it takes the lock.
\<close>

theorem MultiGetBytes_empty_open_panics:
  "MultiGetBytes test_rt test_engine test_db (Some 5) [] [] []
     = (Panicked IndexOutOfRange, [], [], [RLock]) \<and>
   GetApproximateSizes test_rt test_engine test_db [] False = (Some [], [])"
  by (simp add: MultiGetBytes_def GetApproximateSizes_def test_db_def)

section \<open>Shutdown and Close\<close>

text \<open>
  Claim C6 does not hold of the code.  \<open>Close\<close> does not read \<open>opened\<close>: a second
  \<open>Close\<close> on the handle left by the first, whose \<open>opened\<close> is 0, passes the same C
  handle to \<open>rocksdb_close\<close> again.
\<close>

theorem double_Close_frees_twice:
  "opened (fst (Close test_db)) = 0 \<and>
   snd (Close test_db) = [Lock, Native ''rocksdb_close'' 42, Unlock] \<and>
   Close (fst (Close test_db)) = (fst (Close test_db), [Lock, Native ''rocksdb_close'' 42, Unlock])"
  by (simp add: Close_def test_db_def)

lemma closed_loop_events:
  "\<exists>fs. snd (snd (snd (closed_loop i n cKeys vals errs tr))) = tr @ map Free fs"
proof (induction i n cKeys vals errs tr rule: closed_loop.induct)
  case (1 i n cKeys vals errs tr)
  show ?case
  proof (cases "i < n \<and> i < length vals \<and> i < length errs")
    case True
    then obtain fs where
      "snd (snd (snd (closed_loop (i + 1) n cKeys (vals[i := None]) (errs[i := Some errDBClosed])
          (tr @ [Free (cKeys ! i)])))) = (tr @ [Free (cKeys ! i)]) @ map Free fs"
      using "1.IH"[of "vals[i := None]" "errs[i := Some errDBClosed]"] by auto
    then have "snd (snd (snd (closed_loop i n cKeys vals errs tr))) = tr @ map Free ((cKeys ! i) # fs)"
      using True by (subst closed_loop.simps) (simp add: Let_def)
    then show ?thesis by blast
  next
    case False
    then have "snd (snd (snd (closed_loop i n cKeys vals errs tr))) = tr @ map Free []"
      by (subst closed_loop.simps) (simp add: Let_def)
    then show ?thesis by blast
  qed
qed

lemma result_loop_events:
  "\<exists>fs. snd (snd (snd (result_loop rt i n cKeys cValues cValueSizeList cErrs vals errs tr))) = tr @ map Free fs"
proof (induction rt i n cKeys cValues cValueSizeList cErrs vals errs tr rule: result_loop.induct)
  case (1 rt i n cKeys cValues cValueSizeList cErrs vals errs tr)
  let ?r = "result_loop rt i n cKeys cValues cValueSizeList cErrs vals errs tr"
  consider (stop) "\<not> i < n \<or> \<not> i < length vals \<or> (cErrs ! i \<noteq> nil \<and> \<not> i < length errs)"
    | (missing) "i < n" "cErrs ! i = nil" "cValues ! i = nil" "i < length vals"
    | (found) "i < n" "cErrs ! i = nil" "cValues ! i \<noteq> nil" "i < length vals"
    | (failed) "i < n" "cErrs ! i \<noteq> nil" "i < length vals" "i < length errs"
    by blast
  then show ?case
  proof cases
    case stop
    then have "snd (snd (snd ?r)) = tr @ map Free []"
      by (subst result_loop.simps) (auto simp add: Let_def)
    then show ?thesis by blast
  next
    case missing
    from "1.IH"(1)[OF missing] obtain fs where
      "snd (snd (snd (result_loop rt (i + 1) n cKeys cValues cValueSizeList cErrs (vals[i := None]) errs
          (tr @ [Free (cKeys ! i)])))) = (tr @ [Free (cKeys ! i)]) @ map Free fs"
      by blast
    then have "snd (snd (snd ?r)) = tr @ map Free ((cKeys ! i) # fs)"
      using missing by (subst result_loop.simps) simp
    then show ?thesis by blast
  next
    case found
    from "1.IH"(2)[OF found] obtain fs where
      "snd (snd (snd (result_loop rt (i + 1) n cKeys cValues cValueSizeList cErrs
          (vals[i := Some (GoBytes rt (cValues ! i) (ucast (cValueSizeList ! i)))]) errs
          (tr @ [Free (cValues ! i), Free (cKeys ! i)])))) = (tr @ [Free (cValues ! i), Free (cKeys ! i)]) @ map Free fs"
      by blast
    then have "snd (snd (snd ?r)) = tr @ map Free ((cValues ! i) # (cKeys ! i) # fs)"
      using found by (subst result_loop.simps) simp
    then show ?thesis by blast
  next
    case failed
    from "1.IH"(3)[OF failed(1,2,3) refl failed(4)] obtain fs where
      "snd (snd (snd (result_loop rt (i + 1) n cKeys cValues cValueSizeList cErrs (vals[i := None])
          (errs[i := Some (errors_New (GoString rt (cErrs ! i)))])
          (tr @ [Free (cErrs ! i), Free (cKeys ! i)])))) = (tr @ [Free (cErrs ! i), Free (cKeys ! i)]) @ map Free fs"
      by blast
    then have "snd (snd (snd ?r)) = tr @ map Free ((cErrs ! i) # (cKeys ! i) # fs)"
      using failed by (subst result_loop.simps) (simp add: Let_def)
    then show ?thesis by blast
  qed
qed

lemma MultiGetBytes_no_close:
  "Native ''rocksdb_close'' h \<notin> set (snd (snd (snd (MultiGetBytes rt eng db opts keyList vals errs))))"
proof (cases "opened db = 1")
  case False
  obtain fs where fs: "snd (snd (snd (closed_loop 0 (length keyList)
      (map (\<lambda>(i, k). cByteSlice rt i k) (enumerate 0 keyList)) vals errs [RLock]))) = [RLock] @ map Free fs"
    using closed_loop_events by blast
  show ?thesis
    using False fs unfolding MultiGetBytes_def Let_def
    by (auto split: prod.splits outcome.splits)
next
  case True
  show ?thesis
  proof (cases "opts = None \<or> keyList = []")
    case True
    with \<open>opened db = 1\<close> show ?thesis
      unfolding MultiGetBytes_def Let_def by (auto split: option.splits)
  next
    case False
    then obtain o_c where o: "opts = Some o_c" and ne: "length keyList \<noteq> 0" by auto
    obtain a b c where reply: "rocksdb_multi_get eng (db_c db) o_c (of_nat (length keyList))
        (map (\<lambda>(i, k). cByteSlice rt i k) (enumerate 0 keyList))
        (map (\<lambda>k. of_nat (len_bytes k)) keyList) = (a, b, c)"
      by (cases "rocksdb_multi_get eng (db_c db) o_c (of_nat (length keyList))
        (map (\<lambda>(i, k). cByteSlice rt i k) (enumerate 0 keyList))
        (map (\<lambda>k. of_nat (len_bytes k)) keyList)") auto
    obtain fs where fs: "snd (snd (snd (result_loop rt 0 (length keyList)
        (map (\<lambda>(i, k). cByteSlice rt i k) (enumerate 0 keyList))
        (fill (replicate (length keyList) nil) a) (fill (replicate (length keyList) 0) b)
        (fill (replicate (length keyList) nil) c) vals errs
        [RLock, Native ''rocksdb_multi_get'' (db_c db), RUnlock])))
        = [RLock, Native ''rocksdb_multi_get'' (db_c db), RUnlock] @ map Free fs"
      using result_loop_events by blast
    show ?thesis
      using True o ne reply fs unfolding MultiGetBytes_def Let_def
      by auto
  qed
qed

lemma invoke_no_close:
  "call \<noteq> Call_Close \<Longrightarrow> Native ''rocksdb_close'' h \<notin> set (snd (invoke rt eng db call))"
proof (cases call)
  case (Call_MultiGetBytes opts keyList vals errs)
  then show ?thesis using MultiGetBytes_no_close by simp
next
  case (Call_GetApproximateSizes ranges includeMem)
  then show ?thesis
    by (auto simp add: GetApproximateSizes_def Let_def)
qed (auto simp add: Get_def GetBytes_def GetCF_def Put_def Delete_def Merge_def Write_def
      GetProperty_def CompactRange_def Flush_def DisableFileDeletions_def EnableFileDeletions_def
      Shutdown_def Let_def split: option.splits prod.splits)

lemma invoke_handle:
  "call \<noteq> Call_Close \<Longrightarrow> fst (invoke rt eng db call) = db"
  by (cases call) (simp_all add: Shutdown_def)

text \<open>
  Claim C8.  \<open>Shutdown\<close> on a handle whose \<open>opened\<close> is not 0 calls \<open>rocksdb_shutdown\<close>
  under the read lock and leaves every field of the handle, \<open>opened\<close> included, as it
  was; on a handle whose \<open>opened\<close> is 0 it takes and releases the read lock and does
  nothing else.  \<open>Close\<close> calls \<open>rocksdb_close\<close> under the write lock and sets \<open>opened\<close>
  to 0.  Every method call other than \<open>Close\<close> leaves the handle as it was and never
  calls \<open>rocksdb_close\<close>.
\<close>

theorem Shutdown_keeps_handle_only_Close_closes:
  "(opened db \<noteq> 0 \<longrightarrow> Shutdown db = (db, [RLock, Native ''rocksdb_shutdown'' (db_c db), RUnlock])) \<and>
   (opened db = 0 \<longrightarrow> Shutdown db = (db, [RLock, RUnlock])) \<and>
   Close db = (db\<lparr>opened := 0\<rparr>, [Lock, Native ''rocksdb_close'' (db_c db), Unlock]) \<and>
   (\<forall>call. call \<noteq> Call_Close \<longrightarrow>
      fst (invoke rt eng db call) = db \<and>
      (\<forall>h. Native ''rocksdb_close'' h \<notin> set (snd (invoke rt eng db call))))"
proof -
  have "Shutdown db = (db, [RLock, Native ''rocksdb_shutdown'' (db_c db), RUnlock])" if "opened db \<noteq> 0"
    using that by (simp add: Shutdown_def)
  moreover have "Shutdown db = (db, [RLock, RUnlock])" if "opened db = 0"
    using that by (simp add: Shutdown_def)
  moreover have "Close db = (db\<lparr>opened := 0\<rparr>, [Lock, Native ''rocksdb_close'' (db_c db), Unlock])"
    by (simp add: Close_def)
  moreover have "fst (invoke rt eng db call) = db" if "call \<noteq> Call_Close" for call
    using that by (rule invoke_handle)
  moreover have "Native ''rocksdb_close'' h \<notin> set (snd (invoke rt eng db call))"
    if "call \<noteq> Call_Close" for call h
    using that by (rule invoke_no_close)
  ultimately show ?thesis by blast
qed

theorem Shutdown_keeps_handle_only_Close_closes_witness:
  "opened test_db \<noteq> 0 \<and> opened closed_db = 0 \<and>
   Shutdown test_db = (test_db, [RLock, Native ''rocksdb_shutdown'' 42, RUnlock]) \<and>
   opened (fst (Shutdown test_db)) = 1 \<and>
   Shutdown closed_db = (closed_db, [RLock, RUnlock]) \<and>
   Call_Shutdown \<noteq> Call_Close \<and>
   invoke test_rt test_engine test_db Call_Shutdown
     = (test_db, [RLock, Native ''rocksdb_shutdown'' 42, RUnlock]) \<and>
   opened (fst (Close test_db)) = 0"
proof -
  have o: "opened test_db \<noteq> 0" "opened test_db = 1" "db_c test_db = 42" "db_c closed_db = 42"
    by (simp_all add: test_db_def closed_db_def Close_def)
  note a = Shutdown_keeps_handle_only_Close_closes [of test_db test_rt test_engine]
  note b = Shutdown_keeps_handle_only_Close_closes [of closed_db test_rt test_engine]
  have c: "Call_Shutdown \<noteq> Call_Close" by simp
  from a o have 1: "Shutdown test_db = (test_db, [RLock, Native ''rocksdb_shutdown'' 42, RUnlock])"
    by simp
  from b closed_db_opened have 2: "Shutdown closed_db = (closed_db, [RLock, RUnlock])"
    by simp
  from a have 3: "opened (fst (Close test_db)) = 0" by simp
  from a c have 4: "fst (invoke test_rt test_engine test_db Call_Shutdown) = test_db" by blast
  have 5: "snd (invoke test_rt test_engine test_db Call_Shutdown) = [RLock, Native ''rocksdb_shutdown'' 42, RUnlock]"
    using 1 by simp
  from 1 2 3 4 5 o closed_db_opened show ?thesis by (simp add: prod_eq_iff)
qed

section \<open>Opening with column families\<close>

lemma read_handles_all:
  "None \<notin> set os \<Longrightarrow> read_handles os = Returned (map the os)"
  by (induction os rule: read_handles.induct) simp_all

text \<open>
  Claim C10.  \<open>OpenDbColumnFamilies\<close> and \<open>OpenDbForReadOnlyColumnFamilies\<close> return the
  error about the number of names and options when the two lists differ in length.
  With both lists empty they panic: with non-nil options, with an index out of
  range at \<open>&cNames[0]\<close>, after which only the deferred \<open>C.free\<close> of the name runs and
  the engine is not called.  With at least one column family, as many options as
  names and no nil options pointer they return.
\<close>

theorem OpenDbColumnFamilies_needs_a_family:
  "(length cfNames \<noteq> length cfOpts \<longrightarrow>
      OpenDbColumnFamilies rt eng opts name cfNames cfOpts
        = (Returned (None, None,
             Some (errors_New ''must provide the same number of column family names and options'')), []) \<and>
      OpenDbForReadOnlyColumnFamilies rt eng opts name cfNames cfOpts errorIfLogFileExist
        = (Returned (None, None,
             Some (errors_New ''must provide the same number of column family names and options'')), [])) \<and>
   (opts \<noteq> None \<longrightarrow>
      OpenDbColumnFamilies rt eng opts name [] []
        = (Panicked IndexOutOfRange, [Free (CString rt 0 name)]) \<and>
      OpenDbForReadOnlyColumnFamilies rt eng opts name [] [] errorIfLogFileExist
        = (Panicked IndexOutOfRange, [Free (CString rt 0 name)])) \<and>
   (\<exists>p. fst (OpenDbColumnFamilies rt eng opts name [] []) = Panicked p) \<and>
   (\<exists>p. fst (OpenDbForReadOnlyColumnFamilies rt eng opts name [] [] errorIfLogFileExist) = Panicked p) \<and>
   (cfNames \<noteq> [] \<and> length cfNames = length cfOpts \<and> opts \<noteq> None \<and> None \<notin> set cfOpts \<longrightarrow>
      (\<exists>r. fst (OpenDbColumnFamilies rt eng opts name cfNames cfOpts) = Returned r) \<and>
      (\<exists>r. fst (OpenDbForReadOnlyColumnFamilies rt eng opts name cfNames cfOpts errorIfLogFileExist)
              = Returned r))"
proof -
  let ?msg = "errors_New ''must provide the same number of column family names and options''"
  have m1: "OpenDbColumnFamilies rt eng opts name cfNames cfOpts = (Returned (None, None, Some ?msg), [])"
    if "length cfNames \<noteq> length cfOpts"
    using that by (simp add: OpenDbColumnFamilies_def)
  have m2: "OpenDbForReadOnlyColumnFamilies rt eng opts name cfNames cfOpts errorIfLogFileExist
              = (Returned (None, None, Some ?msg), [])"
    if "length cfNames \<noteq> length cfOpts"
    using that by (simp add: OpenDbForReadOnlyColumnFamilies_def)
  have e1: "OpenDbColumnFamilies rt eng opts name [] [] = (Panicked IndexOutOfRange, [Free (CString rt 0 name)])"
    if "opts \<noteq> None"
    using that by (auto simp add: OpenDbColumnFamilies_def enumerate_eq_zip)
  have e2: "OpenDbForReadOnlyColumnFamilies rt eng opts name [] [] errorIfLogFileExist
              = (Panicked IndexOutOfRange, [Free (CString rt 0 name)])"
    if "opts \<noteq> None"
    using that by (auto simp add: OpenDbForReadOnlyColumnFamilies_def enumerate_eq_zip)
  have p1: "\<exists>p. fst (OpenDbColumnFamilies rt eng opts name [] []) = Panicked p"
    by (cases opts) (simp_all add: OpenDbColumnFamilies_def)
  have p2: "\<exists>p. fst (OpenDbForReadOnlyColumnFamilies rt eng opts name [] [] errorIfLogFileExist) = Panicked p"
    by (cases opts) (simp_all add: OpenDbForReadOnlyColumnFamilies_def)
  have s1: "\<exists>r. fst (OpenDbColumnFamilies rt eng opts name cfNames cfOpts) = Returned r"
    if "cfNames \<noteq> []" "length cfNames = length cfOpts" "opts \<noteq> None" "None \<notin> set cfOpts"
    using that read_handles_all [of cfOpts]
    by (auto simp add: OpenDbColumnFamilies_def Let_def split: prod.splits)
  have s2: "\<exists>r. fst (OpenDbForReadOnlyColumnFamilies rt eng opts name cfNames cfOpts errorIfLogFileExist) = Returned r"
    if "cfNames \<noteq> []" "length cfNames = length cfOpts" "opts \<noteq> None" "None \<notin> set cfOpts"
    using that read_handles_all [of cfOpts]
    by (auto simp add: OpenDbForReadOnlyColumnFamilies_def Let_def split: prod.splits)
  from m1 m2 e1 e2 p1 p2 s1 s2 show ?thesis by blast
qed

theorem OpenDbColumnFamilies_needs_a_family_witness:
  "length [''default'', ''meta''] \<noteq> length [Some (1::nat)] \<and>
   OpenDbColumnFamilies test_rt test_engine (Some 1) ''testdb'' [''default'', ''meta''] [Some 1]
     = (Returned (None, None,
          Some (errors_New ''must provide the same number of column family names and options'')), []) \<and>
   OpenDbColumnFamilies test_rt test_engine (Some 1) ''testdb'' [] []
     = (Panicked IndexOutOfRange, [Free 3000]) \<and>
   OpenDbForReadOnlyColumnFamilies test_rt test_engine (Some 1) ''testdb'' [] [] False
     = (Panicked IndexOutOfRange, [Free 3000]) \<and>
   OpenDbColumnFamilies test_rt test_engine (Some 1) ''testdb'' [''default''] [Some 2]
     = (Returned (Some \<lparr> db_c = 42, db_name = ''testdb'', db_opts = Some 1, opened = 1 \<rparr>,
                  Some [Some 102], None),
        [Native ''rocksdb_open_column_families'' 1, Free 3001, Free 3000])"
proof -
  have l: "length [''default'', ''meta''] \<noteq> length [Some (1::nat)]" by simp
  have s: "Some (1::nat) \<noteq> None" by simp
  have c: "CString test_rt 0 ''testdb'' = 3000" by (simp add: test_rt_def)
  have ok: "[''default''] \<noteq> [] \<and> length [''default''] = length [Some (2::nat)] \<and> Some (1::nat) \<noteq> None
             \<and> None \<notin> set [Some (2::nat)]" by simp
  note a = OpenDbColumnFamilies_needs_a_family
             [of "[''default'', ''meta'']" "[Some 1]" test_rt test_engine "Some 1" "''testdb''" False]
  note b = OpenDbColumnFamilies_needs_a_family
             [of "[''default'']" "[Some 2]" test_rt test_engine "Some 1" "''testdb''" False]
  have run: "OpenDbColumnFamilies test_rt test_engine (Some 1) ''testdb'' [''default''] [Some 2]
     = (Returned (Some \<lparr> db_c = 42, db_name = ''testdb'', db_opts = Some 1, opened = 1 \<rparr>,
                  Some [Some 102], None),
        [Native ''rocksdb_open_column_families'' 1, Free 3001, Free 3000])"
    by (simp add: OpenDbColumnFamilies_def test_rt_def test_engine_def enumerate_eq_zip fill_def nil_def
        NewNativeColumnFamilyHandle_def)
  from a l s c have "OpenDbColumnFamilies test_rt test_engine (Some 1) ''testdb'' [''default'', ''meta''] [Some 1]
     = (Returned (None, None,
          Some (errors_New ''must provide the same number of column family names and options'')), [])"
    by blast
  moreover from a s c have "OpenDbColumnFamilies test_rt test_engine (Some 1) ''testdb'' [] []
     = (Panicked IndexOutOfRange, [Free 3000])"
    by simp
  moreover from a s c have "OpenDbForReadOnlyColumnFamilies test_rt test_engine (Some 1) ''testdb'' [] [] False
     = (Panicked IndexOutOfRange, [Free 3000])"
    by simp
  moreover from b ok have "\<exists>r. fst (OpenDbColumnFamilies test_rt test_engine (Some 1) ''testdb'' [''default''] [Some 2]) = Returned r"
    by blast
  ultimately show ?thesis using l run by simp
qed

section \<open>How failures are reported\<close>
















end
